theory Spec2Isabelle
  imports Complex_Main
begin

section \<open>The Workshop controller of spitest/adapter.py\<close>

text \<open>
  The class \<open>Workshop\<close> keeps all of its state in attributes of one object that two
  periodic callbacks and the parameter tree's setters mutate. The model is a record of
  these attributes, passed explicitly. The two device collaborators are made explicit:
  the output bank (\<open>self.mcp\<close>) is the chronological list of its \<open>output(pin, level)\<close>
  calls, and the thermocouple reading is an argument of the slow callback. Python floats
  are modelled as exact reals, Python integers as \<open>int\<close>. Every exception the class can
  raise is a value of the type \<open>error\<close>.
\<close>

subsection \<open>Errors and Python primitives\<close>

datatype ptree_error = NotFound "string list" | ReadOnly "string list"

datatype error =
    IndexError
  | ZeroDivisionError
  | AttributeError
  | TypeError
  | ParameterTreeError ptree_error
  | WorkshopError ptree_error

definition bind_res :: "error + 'a \<Rightarrow> ('a \<Rightarrow> error + 'b) \<Rightarrow> error + 'b" where
  "bind_res r f = (case r of Inl e \<Rightarrow> Inl e | Inr x \<Rightarrow> f x)"

definition py_index :: "'a list \<Rightarrow> int \<Rightarrow> error + nat" where
  \<comment> \<open>The position a Python list subscript denotes; \<open>-1\<close> is the last element.\<close>
  "py_index xs i =
     (if 0 \<le> i \<and> i < int (length xs) then Inr (nat i)
      else if - int (length xs) \<le> i \<and> i < 0 then Inr (nat (int (length xs) + i))
      else Inl IndexError)"

definition py_getitem :: "'a list \<Rightarrow> int \<Rightarrow> error + 'a" where
  "py_getitem xs i = bind_res (py_index xs i) (\<lambda>j. Inr (xs ! j))"

definition py_setitem :: "'a list \<Rightarrow> int \<Rightarrow> 'a \<Rightarrow> error + 'a list" where
  "py_setitem xs i v = bind_res (py_index xs i) (\<lambda>j. Inr (xs[j := v]))"

definition py_truediv :: "real \<Rightarrow> int \<Rightarrow> error + real" where
  "py_truediv a b = (if b = 0 then Inl ZeroDivisionError else Inr (a / real_of_int b))"

definition randint :: "int \<Rightarrow> int \<Rightarrow> nat \<Rightarrow> int" where
  \<comment> \<open>\<open>random.randint(a, b)\<close>: some integer of \<open>a..b\<close>, chosen by the raw draw \<open>r\<close>.\<close>
  "randint a b r = a + int r mod (b - a + 1)"

subsection \<open>State\<close>

record periodic_callback =
  callback_time :: real
  running :: bool

record workshop =
  init_time :: real
  mcp_calls :: "(int \<times> int) list"
  led_states :: "int list"
  avg_temp :: real
  avg_temp_calc :: "real list"
  avg_count :: int
  ten_count_switch :: bool
  temp_task_enable :: bool
  temp_bounds :: "real list"
  task_mode :: string
  LED_task_enable :: bool
  LED_task_interval :: real
  rave_ioloop_counter :: int
  traffic_wait_counter :: int
  traffic_loop_counter :: int
  temp_count :: int
  background_thread_counter :: int
  LED_ioloop_task :: "periodic_callback option"
  temp_ioloop_task :: "periodic_callback option"

definition RED :: int where "RED = 2"
definition YELLOW :: int where "YELLOW = 1"
definition GREEN :: int where "GREEN = 0"

subsection \<open>Tasks and setters\<close>

definition start_LED_task :: "workshop \<Rightarrow> workshop" where
  "start_LED_task s =
     s\<lparr>LED_task_enable := True,
       LED_ioloop_task :=
         Some \<lparr>callback_time = LED_task_interval s * 1000, running = True\<rparr>\<rparr>"

definition stop_LED_task :: "workshop \<Rightarrow> error + workshop" where
  \<comment> \<open>The attribute \<open>LED_ioloop_task\<close> exists only once the task has been started.\<close>
  "stop_LED_task s =
     (case LED_ioloop_task (s\<lparr>LED_task_enable := False\<rparr>) of
        None \<Rightarrow> Inl AttributeError
      | Some t \<Rightarrow>
          Inr (s\<lparr>LED_task_enable := False, LED_ioloop_task := Some (t\<lparr>running := False\<rparr>)\<rparr>))"

definition start_temp_task :: "workshop \<Rightarrow> workshop" where
  "start_temp_task s =
     s\<lparr>temp_task_enable := True,
       temp_ioloop_task := Some \<lparr>callback_time = 1000, running = True\<rparr>\<rparr>"

definition stop_temp_task :: "workshop \<Rightarrow> error + workshop" where
  "stop_temp_task s =
     (case temp_ioloop_task (s\<lparr>temp_task_enable := False\<rparr>) of
        None \<Rightarrow> Inl AttributeError
      | Some t \<Rightarrow>
          Inr (s\<lparr>temp_task_enable := False, temp_ioloop_task := Some (t\<lparr>running := False\<rparr>)\<rparr>))"

definition Workshop_init :: "real \<Rightarrow> bool \<Rightarrow> real \<Rightarrow> bool \<Rightarrow> workshop" where
  \<comment> \<open>\<open>Workshop.__init__\<close>; the first argument is the reading of \<open>time.time()\<close>. The loop
      over \<open>range(num_pins)\<close> commands level 0 on the pins 0, 1, 2.\<close>
  "Workshop_init now led_enable led_interval temp_enable =
     (let s = \<lparr>init_time = now,
                mcp_calls = map (\<lambda>pin. (int pin, 0)) [0..<3],
                led_states = replicate 3 0,
                avg_temp = 0,
                avg_temp_calc = replicate 10 0,
                avg_count = 0,
                ten_count_switch = False,
                temp_task_enable = temp_enable,
                temp_bounds = [43 / 2, 22],
                task_mode = ''command'',
                LED_task_enable = led_enable,
                LED_task_interval = led_interval,
                rave_ioloop_counter = 0,
                traffic_wait_counter = 0,
                traffic_loop_counter = 0,
                temp_count = 0,
                background_thread_counter = 0,
                LED_ioloop_task = None,
                temp_ioloop_task = None\<rparr>;
          s = (if LED_task_enable s then start_LED_task s else s)
      in if temp_task_enable s then start_temp_task s else s)"

definition set_task_mode :: "string \<Rightarrow> workshop \<Rightarrow> error + workshop" where
  "set_task_mode mode s = Inr (s\<lparr>task_mode := mode\<rparr>)"

definition set_led_state :: "int \<Rightarrow> int \<Rightarrow> workshop \<Rightarrow> error + workshop" where
  "set_led_state led state s =
     bind_res (py_setitem (led_states s) led state)
       (\<lambda>ls. Inr (s\<lparr>led_states := ls, mcp_calls := mcp_calls s @ [(led, state)]\<rparr>))"

definition set_temp_bounds :: "int \<Rightarrow> real \<Rightarrow> workshop \<Rightarrow> error + workshop" where
  "set_temp_bounds bound temp s =
     bind_res (py_setitem (temp_bounds s) bound temp) (\<lambda>bs. Inr (s\<lparr>temp_bounds := bs\<rparr>))"

definition set_LED_task_interval :: "real \<Rightarrow> workshop \<Rightarrow> error + workshop" where
  "set_LED_task_interval interval s = Inr (s\<lparr>LED_task_interval := interval\<rparr>)"

definition set_LED_task_enable :: "bool \<Rightarrow> workshop \<Rightarrow> error + workshop" where
  "set_LED_task_enable enable s =
     (if enable \<noteq> LED_task_enable s
      then (if enable then Inr (start_LED_task s) else stop_LED_task s)
      else Inr s)"

definition update_led :: "int \<Rightarrow> int \<Rightarrow> workshop \<Rightarrow> error + workshop" where
  "update_led led state s =
     (let s = s\<lparr>mcp_calls := mcp_calls s @ [(led, state)]\<rparr>
      in bind_res (py_setitem (led_states s) led state) (\<lambda>ls. Inr (s\<lparr>led_states := ls\<rparr>)))"

subsection \<open>The fast callback\<close>

fun rave_loop :: "(nat \<Rightarrow> nat) \<Rightarrow> nat list \<Rightarrow> workshop \<Rightarrow> error + workshop" where
  \<comment> \<open>\<open>for i in range(3)\<close>: iteration \<open>i\<close> draws the channel, then the level.\<close>
  "rave_loop rnd [] s = Inr s"
| "rave_loop rnd (i # is) s =
     bind_res (update_led (randint 0 2 (rnd (2 * i))) (randint 0 1 (rnd (2 * i + 1))) s)
       (rave_loop rnd is)"

definition LED_ioloop_callback :: "(nat \<Rightarrow> nat) \<Rightarrow> workshop \<Rightarrow> error + workshop" where
  "LED_ioloop_callback rnd s =
     bind_res
       (if task_mode s = ''rave''
        then bind_res (rave_loop rnd [0..<3] s)
               (\<lambda>s. Inr (s\<lparr>rave_ioloop_counter := rave_ioloop_counter s + 1\<rparr>))
        else Inr s)
       (\<lambda>s. if task_mode s = ''traffic''
            then (let s = s\<lparr>traffic_wait_counter := traffic_wait_counter s + 1\<rparr>
                  in if traffic_wait_counter s = 2
                     then bind_res (update_led YELLOW 0 s) (update_led RED 1)
                     else if traffic_wait_counter s = 14
                     then update_led YELLOW 1 s
                     else if traffic_wait_counter s = 22
                     then bind_res (bind_res (update_led RED 0 s) (update_led YELLOW 0))
                            (update_led GREEN 1)
                     else if traffic_wait_counter s = 34
                     then bind_res (update_led GREEN 0 s) (update_led YELLOW 1)
                     else if traffic_wait_counter s = 39
                     then Inr (s\<lparr>traffic_wait_counter := 0,
                                 traffic_loop_counter := traffic_loop_counter s + 1\<rparr>)
                     else Inr s)
            else Inr s)"

subsection \<open>The slow callback\<close>

definition temp_ioloop_callback :: "real \<Rightarrow> workshop \<Rightarrow> error + workshop" where
  "temp_ioloop_callback temperature s =
     (let s = s\<lparr>avg_temp := 0\<rparr>
      in bind_res (py_setitem (avg_temp_calc s) (avg_count s) temperature) (\<lambda>buf.
         let s = s\<lparr>avg_temp_calc := buf\<rparr>;
             s = s\<lparr>avg_count := avg_count s + 1\<rparr>;
             s = s\<lparr>avg_temp := foldl (\<lambda>acc temp. acc + temp) (avg_temp s) (avg_temp_calc s)\<rparr>
         in bind_res
              (if ten_count_switch s
               then (let s = s\<lparr>avg_temp := avg_temp s / 10\<rparr>
                     in Inr (if avg_count s = 10 then s\<lparr>avg_count := 0\<rparr> else s))
               else if avg_count s < 10
               then bind_res (py_truediv (avg_temp s) (avg_count s))
                      (\<lambda>a. Inr (s\<lparr>avg_temp := a\<rparr>))
               else Inr (s\<lparr>ten_count_switch := True,
                            avg_temp := avg_temp s / 10,
                            avg_count := 0\<rparr>))
              (\<lambda>s.
                let s = s\<lparr>temp_count := temp_count s + 1\<rparr>
                in if task_mode s = ''thermometer''
                   then bind_res
                          (bind_res (bind_res (update_led RED 0 s) (update_led YELLOW 0))
                             (update_led GREEN 0))
                          (\<lambda>s. bind_res (py_getitem (temp_bounds s) 0) (\<lambda>lower.
                               if temperature < lower then update_led YELLOW 1 s
                               else bind_res (py_getitem (temp_bounds s) 1) (\<lambda>upper.
                                 if temperature < upper \<and> temperature > lower
                                 then update_led GREEN 1 s
                                 else if temperature > upper then update_led RED 1 s
                                 else Inr s)))
                   else Inr s)))"

subsection \<open>Runs of the controller\<close>

text \<open>
  The operations that change the state once the object is constructed: the two periodic
  callbacks and the setters that the parameter tree's leaves bind (\<open>task_mode\<close>,
  \<open>interval\<close>, the three LEDs, the two temperature bounds). A fast tick carries the raw
  draws of its random choices, a slow tick the thermocouple reading. A run stops at the
  first exception.
\<close>

datatype event =
    Fast_tick "nat \<Rightarrow> nat"
  | Slow_tick real
  | Set_task_mode string
  | Set_interval real
  | Set_red int
  | Set_yellow int
  | Set_green int
  | Set_lower real
  | Set_upper real

fun apply_event :: "event \<Rightarrow> workshop \<Rightarrow> error + workshop" where
  "apply_event (Fast_tick rnd) s = LED_ioloop_callback rnd s"
| "apply_event (Slow_tick temperature) s = temp_ioloop_callback temperature s"
| "apply_event (Set_task_mode mode) s = set_task_mode mode s"
| "apply_event (Set_interval interval) s = set_LED_task_interval interval s"
| "apply_event (Set_red state) s = set_led_state RED state s"
| "apply_event (Set_yellow state) s = set_led_state YELLOW state s"
| "apply_event (Set_green state) s = set_led_state GREEN state s"
| "apply_event (Set_lower temp) s = set_temp_bounds 0 temp s"
| "apply_event (Set_upper temp) s = set_temp_bounds 1 temp s"

fun run :: "event list \<Rightarrow> workshop \<Rightarrow> error + workshop" where
  "run [] s = Inr s"
| "run (e # es) s = bind_res (apply_event e s) (run es)"

fun samples :: "event list \<Rightarrow> real list" where
  \<comment> \<open>The thermocouple readings of a run, oldest first.\<close>
  "samples [] = []"
| "samples (Slow_tick temperature # es) = temperature # samples es"
| "samples (e # es) = samples es"

definition last_commanded :: "int \<Rightarrow> (int \<times> int) list \<Rightarrow> int option" where
  \<comment> \<open>The level of the latest \<open>output\<close> call for a pin, if there is one.\<close>
  "last_commanded led calls = map_of (rev calls) led"

subsection \<open>Specification-side definitions\<close>

definition traffic_table_spec :: "int \<Rightarrow> (int \<times> int) list" where
  \<comment> \<open>The table of traffic transitions as the specification words it: the output calls
      expected at a value of the phase counter.\<close>
  "traffic_table_spec c =
     (if c = 2 then [(YELLOW, 0), (RED, 1)]
      else if c = 14 then [(YELLOW, 1)]
      else if c = 22 then [(RED, 0), (YELLOW, 0), (GREEN, 1)]
      else if c = 34 then [(GREEN, 0), (YELLOW, 1)]
      else [])"

definition valid_call :: "int \<times> int \<Rightarrow> bool" where
  \<comment> \<open>An output call on one of the three channels with a level of 0 or 1.\<close>
  "valid_call c = (fst c \<in> {0, 1, 2} \<and> snd c \<in> {0, 1})"

(*DEFS-END*)

section \<open>Properties\<close>

subsection \<open>Basic facts\<close>
lemma bind_res_Inr [simp]: "bind_res (Inr x) f = f x"
  by (simp add: bind_res_def)

lemma bind_res_Inl [simp]: "bind_res (Inl e) f = Inl e"
  by (simp add: bind_res_def)

lemma py_index_nat: "0 \<le> i \<Longrightarrow> i < int (length xs) \<Longrightarrow> py_index xs i = Inr (nat i)"
  by (simp add: py_index_def)

lemma update_led_ok:
  assumes "length (led_states s) = 3" and "0 \<le> led" and "led < 3"
  shows "update_led led v s =
         Inr (s\<lparr>mcp_calls := mcp_calls s @ [(led, v)],
                led_states := (led_states s)[nat led := v]\<rparr>)"
  using assms by (simp add: update_led_def py_setitem_def py_index_nat Let_def)

lemma run_append: "run (es @ fs) s = bind_res (run es s) (run fs)"
  by (induction es arbitrary: s) (auto simp: bind_res_def split: sum.splits)

lemma traffic_step:
  assumes "task_mode s = ''traffic''" and "length (led_states s) = 3"
  shows "\<exists>s'. LED_ioloop_callback rnd s = Inr s' \<and> task_mode s' = ''traffic'' \<and>
           length (led_states s') = 3 \<and>
           traffic_wait_counter s' =
             (if traffic_wait_counter s + 1 = 39 then 0 else traffic_wait_counter s + 1) \<and>
           traffic_loop_counter s' =
             (if traffic_wait_counter s + 1 = 39 then traffic_loop_counter s + 1
              else traffic_loop_counter s) \<and>
           mcp_calls s' = mcp_calls s @ traffic_table_spec (traffic_wait_counter s + 1)"
  using assms
  by (simp add: LED_ioloop_callback_def Let_def update_led_ok traffic_table_spec_def
        RED_def YELLOW_def GREEN_def)

lemma traffic_ticks:
  assumes "task_mode s = ''traffic''" and "length (led_states s) = 3"
    and "traffic_wait_counter s = 0" and "length rs < 39"
  shows "\<exists>s'. run (map Fast_tick rs) s = Inr s' \<and> task_mode s' = ''traffic'' \<and>
           length (led_states s') = 3 \<and>
           traffic_wait_counter s' = int (length rs) \<and>
           traffic_loop_counter s' = traffic_loop_counter s \<and>
           mcp_calls s' = mcp_calls s @ concat (map traffic_table_spec [1..int (length rs)])"
  using assms(4)
proof (induction rs rule: rev_induct)
  case Nil
  show ?case using assms by simp
next
  case (snoc r rs)
  then obtain s1 where s1: "run (map Fast_tick rs) s = Inr s1" "task_mode s1 = ''traffic''"
     "length (led_states s1) = 3" "traffic_wait_counter s1 = int (length rs)"
     "traffic_loop_counter s1 = traffic_loop_counter s"
     "mcp_calls s1 = mcp_calls s @ concat (map traffic_table_spec [1..int (length rs)])"
    by auto
  from traffic_step [OF s1(2,3), of r] obtain s2 where
    s2: "LED_ioloop_callback r s1 = Inr s2" "task_mode s2 = ''traffic''"
      "length (led_states s2) = 3"
      "traffic_wait_counter s2 =
         (if traffic_wait_counter s1 + 1 = 39 then 0 else traffic_wait_counter s1 + 1)"
      "traffic_loop_counter s2 =
         (if traffic_wait_counter s1 + 1 = 39 then traffic_loop_counter s1 + 1
          else traffic_loop_counter s1)"
      "mcp_calls s2 = mcp_calls s1 @ traffic_table_spec (traffic_wait_counter s1 + 1)"
    by blast
  have up: "[1..1 + int (length rs)] = [1..int (length rs)] @ [1 + int (length rs)]"
    by (simp add: upto_rec2 add.commute)
  have "run (map Fast_tick (rs @ [r])) s = Inr s2"
    by (simp add: run_append s1(1) s2(1))
  moreover have "traffic_wait_counter s2 = int (length (rs @ [r]))"
    using s2(4) s1(4) snoc.prems by simp
  moreover have "traffic_loop_counter s2 = traffic_loop_counter s"
    using s2(5) s1(4,5) snoc.prems by simp
  moreover have "mcp_calls s2 =
      mcp_calls s @ concat (map traffic_table_spec [1..int (length (rs @ [r]))])"
    using s2(6) s1(4,6) by (simp add: up add.commute)
  ultimately show ?case using s2(2,3) by blast
qed

lemma table_cycle:
  "concat (map traffic_table_spec [1..38]) =
     [(YELLOW, 0), (RED, 1), (YELLOW, 1), (RED, 0), (YELLOW, 0), (GREEN, 1), (GREEN, 0), (YELLOW, 1)]"
  by (simp add: upto_rec1 traffic_table_spec_def)

lemma randint_range: "a \<le> b \<Longrightarrow> a \<le> randint a b r \<and> randint a b r \<le> b"
proof -
  assume "a \<le> b"
  then have pos: "0 < b - a + 1" by simp
  have "0 \<le> int r mod (b - a + 1)" using pos by (rule pos_mod_sign)
  moreover have "int r mod (b - a + 1) < b - a + 1" using pos by (rule pos_mod_bound)
  ultimately show ?thesis by (simp add: randint_def)
qed

lemma randint_channel [simp]: "0 \<le> randint 0 2 r" "randint 0 2 r < 3"
  using randint_range [of 0 2 r] by auto

lemma randint_level: "randint 0 1 r = 0 \<or> randint 0 1 r = 1"
  using randint_range [of 0 1 r] by (simp, arith)

lemma randint_channel_cases: "randint 0 2 r = 0 \<or> randint 0 2 r = 1 \<or> randint 0 2 r = 2"
  using randint_range [of 0 2 r] by (simp, arith)

lemma valid_call_randint [simp]: "valid_call (randint 0 2 r, randint 0 1 r')"
  using randint_level [of r'] randint_channel_cases [of r] by (auto simp: valid_call_def)

lemma rave_step:
  assumes "task_mode s = ''rave''" and "length (led_states s) = 3"
  shows "\<exists>s' calls. LED_ioloop_callback rnd s = Inr s' \<and> task_mode s' = ''rave'' \<and>
           length (led_states s') = 3 \<and>
           rave_ioloop_counter s' = rave_ioloop_counter s + 1 \<and>
           mcp_calls s' = mcp_calls s @ calls \<and> length calls = 3 \<and> list_all valid_call calls"
  using assms
  by (simp add: LED_ioloop_callback_def upt_rec update_led_ok)

lemma rave_ticks:
  assumes "task_mode s = ''rave''" and "length (led_states s) = 3"
  shows "\<exists>s' calls. run (map Fast_tick rs) s = Inr s' \<and> task_mode s' = ''rave'' \<and>
           length (led_states s') = 3 \<and>
           rave_ioloop_counter s' = rave_ioloop_counter s + int (length rs) \<and>
           mcp_calls s' = mcp_calls s @ calls \<and> length calls = 3 * length rs \<and>
           list_all valid_call calls"
  using assms
proof (induction rs arbitrary: s)
  case Nil
  then show ?case by simp
next
  case (Cons r rs)
  from rave_step [OF Cons.prems, of r] obtain s1 c1 where
    s1: "LED_ioloop_callback r s = Inr s1" "task_mode s1 = ''rave''"
      "length (led_states s1) = 3" "rave_ioloop_counter s1 = rave_ioloop_counter s + 1"
      "mcp_calls s1 = mcp_calls s @ c1" "length c1 = 3" "list_all valid_call c1"
    by blast
  from Cons.IH [OF s1(2,3)] obtain s2 c2 where
    s2: "run (map Fast_tick rs) s1 = Inr s2" "task_mode s2 = ''rave''"
      "length (led_states s2) = 3"
      "rave_ioloop_counter s2 = rave_ioloop_counter s1 + int (length rs)"
      "mcp_calls s2 = mcp_calls s1 @ c2" "length c2 = 3 * length rs" "list_all valid_call c2"
    by blast
  have "run (map Fast_tick (r # rs)) s = Inr s2"
    by (simp add: s1(1) s2(1))
  moreover have "rave_ioloop_counter s2 = rave_ioloop_counter s + int (length (r # rs))"
    by (simp add: s1(4) s2(4))
  moreover have "mcp_calls s2 = mcp_calls s @ (c1 @ c2)"
    by (simp add: s1(5) s2(5))
  moreover have "length (c1 @ c2) = 3 * length (r # rs)"
    by (simp add: s1(6) s2(6))
  moreover have "list_all valid_call (c1 @ c2)"
    by (simp add: s1(7) s2(7))
  ultimately show ?case using s2(2,3) by blast
qed

lemma idle_fast_tick:
  "task_mode s \<noteq> ''rave'' \<Longrightarrow> task_mode s \<noteq> ''traffic'' \<Longrightarrow> LED_ioloop_callback rnd s = Inr s"
  by (simp add: LED_ioloop_callback_def)

lemma temp_mode_indep:
  assumes "m \<noteq> ''thermometer''" 
  shows "temp_ioloop_callback t (s\<lparr>task_mode := m\<rparr>) =
         map_sum id (\<lambda>s'. s'\<lparr>task_mode := m\<rparr>) (temp_ioloop_callback t (s\<lparr>task_mode := ''command''\<rparr>))"
  using assms
  by (simp add: temp_ioloop_callback_def Let_def bind_res_def py_setitem_def py_truediv_def
        split: sum.splits)

lemma init_simps:
  "task_mode (Workshop_init now e i t) = ''command''"
  "led_states (Workshop_init now e i t) = [0, 0, 0]"
  "mcp_calls (Workshop_init now e i t) = [(0, 0), (1, 0), (2, 0)]"
  "traffic_wait_counter (Workshop_init now e i t) = 0"
  "traffic_loop_counter (Workshop_init now e i t) = 0"
  "rave_ioloop_counter (Workshop_init now e i t) = 0"
  "avg_temp_calc (Workshop_init now e i t) = replicate 10 0"
  "avg_count (Workshop_init now e i t) = 0"
  "ten_count_switch (Workshop_init now e i t) = False"
  "temp_bounds (Workshop_init now e i t) = [43 / 2, 22]"
  by (simp_all add: Workshop_init_def Let_def start_LED_task_def start_temp_task_def
        upt_rec numeral_eq_Suc)

subsection \<open>Traffic mode\<close>

text \<open>
  Claim C1. In traffic mode, starting from phase counter 0, the first \<open>n \<le> 38\<close> fast
  ticks leave the phase counter at \<open>n\<close> (each tick adds one), the output bank receives
  exactly the calls of the specification's table at the counter values 2, 14, 22 and 34
  and no call at any other value, and the 39th tick resets the phase counter to 0 and adds
  exactly 1 to the loop-completion counter.
\<close>

theorem traffic_cycle:
  assumes "task_mode s = ''traffic''" and "length (led_states s) = 3"
    and "traffic_wait_counter s = 0" and "length rs \<le> 39"
  shows "\<exists>s'. run (map Fast_tick rs) s = Inr s' \<and>
           traffic_wait_counter s' = (if length rs = 39 then 0 else int (length rs)) \<and>
           traffic_loop_counter s' =
             (if length rs = 39 then traffic_loop_counter s + 1 else traffic_loop_counter s) \<and>
           mcp_calls s' = mcp_calls s @ concat (map traffic_table_spec [1..int (length rs)])"
proof (cases "length rs = 39")
  case False
  then have "length rs < 39" using assms(4) by simp
  from traffic_ticks [OF assms(1,2,3) this] False show ?thesis by auto
next
  case True
  then have ne: "rs \<noteq> []" by auto
  define qs where "qs = butlast rs"
  have rs: "rs = qs @ [last rs]" using ne by (simp add: qs_def)
  have lq: "length qs = 38" using True by (simp add: qs_def)
  then have "length qs < 39" by simp
  from traffic_ticks [OF assms(1,2,3) this] obtain s1 where
    s1: "run (map Fast_tick qs) s = Inr s1" "task_mode s1 = ''traffic''"
      "length (led_states s1) = 3" "traffic_wait_counter s1 = 38"
      "traffic_loop_counter s1 = traffic_loop_counter s"
      "mcp_calls s1 = mcp_calls s @ concat (map traffic_table_spec [1..38])"
    using lq by auto
  from traffic_step [OF s1(2,3), of "last rs"] obtain s2 where
    s2: "LED_ioloop_callback (last rs) s1 = Inr s2" "traffic_wait_counter s2 = 0"
      "traffic_loop_counter s2 = traffic_loop_counter s1 + 1"
      "mcp_calls s2 = mcp_calls s1 @ traffic_table_spec 39"
    using s1(4) by auto
  have "run (map Fast_tick rs) s = Inr s2"
    by (subst rs) (simp add: run_append s1(1) s2(1))
  moreover have "[1..39] = [1..38] @ [39::int]"
    by (simp add: upto_rec2)
  then have "mcp_calls s2 = mcp_calls s @ concat (map traffic_table_spec [1..int (length rs)])"
    using s2(4) s1(6) True by simp
  ultimately show ?thesis using s2(2,3) s1(5) True by auto
qed

theorem traffic_cycle_witness:
  "\<exists>s'. run (map Fast_tick (replicate 39 id))
           ((Workshop_init 0 True (1 / 4) True)\<lparr>task_mode := ''traffic''\<rparr>) = Inr s' \<and>
        traffic_wait_counter s' = 0 \<and> traffic_loop_counter s' = 1 \<and>
        mcp_calls s' =
          [(0, 0), (1, 0), (2, 0),
           (YELLOW, 0), (RED, 1), (YELLOW, 1), (RED, 0), (YELLOW, 0), (GREEN, 1),
           (GREEN, 0), (YELLOW, 1)]"
proof -
  have "[1..39] = [1..38] @ [39::int]"
    by (simp add: upto_rec2)
  then have "concat (map traffic_table_spec [1..39]) = concat (map traffic_table_spec [1..38])"
    by (simp add: traffic_table_spec_def)
  then show ?thesis
    using traffic_cycle [of "(Workshop_init 0 True (1 / 4) True)\<lparr>task_mode := ''traffic''\<rparr>"
        "replicate 39 id"]
    by (simp add: init_simps table_cycle)
qed

subsection \<open>Rave mode\<close>

text \<open>
  Claim C4. In rave mode, whatever the random draws of the \<open>N\<close> fast ticks are, the run
  succeeds, the rave counter has grown by exactly \<open>N\<close> (so it is \<open>N\<close> when it started
  at 0), and exactly \<open>3 * N\<close> output calls were made, each on a channel of 0, 1, 2 with a
  level of 0 or 1.
\<close>

theorem rave_counts:
  assumes "task_mode s = ''rave''" and "length (led_states s) = 3"
  shows "\<exists>s' calls. run (map Fast_tick rs) s = Inr s' \<and>
           rave_ioloop_counter s' = rave_ioloop_counter s + int (length rs) \<and>
           mcp_calls s' = mcp_calls s @ calls \<and> length calls = 3 * length rs \<and>
           (\<forall>c \<in> set calls. fst c \<in> {0, 1, 2} \<and> snd c \<in> {0, 1})"
proof -
  from rave_ticks [OF assms, of rs] obtain s' calls where
    *: "run (map Fast_tick rs) s = Inr s'"
      "rave_ioloop_counter s' = rave_ioloop_counter s + int (length rs)"
      "mcp_calls s' = mcp_calls s @ calls" "length calls = 3 * length rs"
      "list_all valid_call calls"
    by blast
  from *(5) have "\<forall>c \<in> set calls. fst c \<in> {0, 1, 2} \<and> snd c \<in> {0, 1}"
    by (simp add: list_all_iff valid_call_def)
  with *(1-4) show ?thesis by blast
qed

theorem rave_counts_witness:
  "\<exists>s' calls.
     run (map Fast_tick [id, Suc]) ((Workshop_init 0 True (1 / 4) True)\<lparr>task_mode := ''rave''\<rparr>)
       = Inr s' \<and>
     rave_ioloop_counter s' = 2 \<and>
     mcp_calls s' = [(0, 0), (1, 0), (2, 0)] @ calls \<and> length calls = 6 \<and>
     (\<forall>c \<in> set calls. fst c \<in> {0, 1, 2} \<and> snd c \<in> {0, 1})"
  using rave_counts [of "(Workshop_init 0 True (1 / 4) True)\<lparr>task_mode := ''rave''\<rparr>" "[id, Suc]"]
  by (simp add: init_simps)

subsection \<open>Idle fast ticks\<close>

text \<open>
  Claim C5 as stated fails: rave is a mode other than thermometer and traffic, and one fast
  tick in it makes three output calls.
\<close>

theorem fast_tick_rave_counterexample:
  "''rave'' \<noteq> ''thermometer'' \<and> ''rave'' \<noteq> ''traffic'' \<and>
   mcp_calls (Workshop_init 0 True (1 / 4) True) = [(0, 0), (1, 0), (2, 0)] \<and>
   map_sum id mcp_calls
     (run [Set_task_mode ''rave'', Fast_tick id] (Workshop_init 0 True (1 / 4) True)) =
   Inr [(0, 0), (1, 0), (2, 0), (0, 1), (2, 1), (1, 1)]"
  by (simp add: init_simps set_task_mode_def LED_ioloop_callback_def update_led_ok
      upt_rec randint_def)

text \<open>
  Claim C5, amended. For every mode other than rave and traffic (command, thermometer and
  every unrecognised name), a fast tick returns the state unchanged: no output call, no
  counter change.
\<close>

theorem fast_tick_idle:
  assumes "task_mode s \<noteq> ''rave''" and "task_mode s \<noteq> ''traffic''"
  shows "LED_ioloop_callback rnd s = Inr s"
  using assms by (simp add: LED_ioloop_callback_def)

theorem fast_tick_idle_witness:
  "''thermometer'' \<noteq> ''rave'' \<and> ''thermometer'' \<noteq> ''traffic'' \<and>
   LED_ioloop_callback id ((Workshop_init 0 True (1 / 4) True)\<lparr>task_mode := ''thermometer''\<rparr>) =
   Inr ((Workshop_init 0 True (1 / 4) True)\<lparr>task_mode := ''thermometer''\<rparr>)"
  using fast_tick_idle
    [of "(Workshop_init 0 True (1 / 4) True)\<lparr>task_mode := ''thermometer''\<rparr>" id]
  by simp

lemma temp_no_calls:
  assumes "task_mode s \<noteq> ''thermometer''" and "temp_ioloop_callback t s = Inr u"
  shows "mcp_calls u = mcp_calls s"
  using assms
  by (auto simp: temp_ioloop_callback_def Let_def bind_res_def py_setitem_def py_truediv_def
        split: sum.splits if_splits)

text \<open>
  Claim C8. A mode name outside rave, traffic and thermometer is stored without error or
  validation. In that mode the fast tick changes nothing (as in command mode), and the slow
  tick does what it does in command mode, the mode name apart, making no output call.
\<close>

theorem unknown_mode:
  assumes "m \<noteq> ''rave''" and "m \<noteq> ''traffic''" and "m \<noteq> ''thermometer''"
  shows "\<exists>s'. set_task_mode m s = Inr s' \<and> task_mode s' = m \<and>
           LED_ioloop_callback rnd s' = Inr s' \<and>
           LED_ioloop_callback rnd (s'\<lparr>task_mode := ''command''\<rparr>) =
             Inr (s'\<lparr>task_mode := ''command''\<rparr>) \<and>
           temp_ioloop_callback t s' =
             map_sum id (\<lambda>u. u\<lparr>task_mode := m\<rparr>)
               (temp_ioloop_callback t (s'\<lparr>task_mode := ''command''\<rparr>)) \<and>
           (\<forall>u. temp_ioloop_callback t s' = Inr u \<longrightarrow> mcp_calls u = mcp_calls s')"
proof -
  let ?s = "s\<lparr>task_mode := m\<rparr>"
  have 1: "set_task_mode m s = Inr ?s" by (simp add: set_task_mode_def)
  have 2: "LED_ioloop_callback rnd ?s = Inr ?s"
    using assms by (simp add: idle_fast_tick)
  have 3: "LED_ioloop_callback rnd (?s\<lparr>task_mode := ''command''\<rparr>) =
        Inr (?s\<lparr>task_mode := ''command''\<rparr>)"
    by (simp add: idle_fast_tick)
  have 4: "temp_ioloop_callback t ?s =
      map_sum id (\<lambda>u. u\<lparr>task_mode := m\<rparr>) (temp_ioloop_callback t (?s\<lparr>task_mode := ''command''\<rparr>))"
    using temp_mode_indep [OF assms(3), of t s] by simp
  have 5: "\<forall>u. temp_ioloop_callback t ?s = Inr u \<longrightarrow> mcp_calls u = mcp_calls ?s"
    using temp_no_calls [of ?s t] assms(3) by simp
  show ?thesis using 1 2 3 4 5 by simp
qed

theorem unknown_mode_witness:
  "''disco'' \<noteq> ''rave'' \<and> ''disco'' \<noteq> ''traffic'' \<and> ''disco'' \<noteq> ''thermometer'' \<and>
   (\<exists>s'. set_task_mode ''disco'' (Workshop_init 0 True (1 / 4) True) = Inr s' \<and>
      task_mode s' = ''disco'' \<and> LED_ioloop_callback id s' = Inr s' \<and>
      map_sum id mcp_calls (temp_ioloop_callback 21 s') = Inr [(0, 0), (1, 0), (2, 0)])"
proof -
  obtain s' where *: "set_task_mode ''disco'' (Workshop_init 0 True (1 / 4) True) = Inr s'"
     "task_mode s' = ''disco''" "LED_ioloop_callback id s' = Inr s'"
     "\<forall>u. temp_ioloop_callback 21 s' = Inr u \<longrightarrow> mcp_calls u = mcp_calls s'"
    using unknown_mode [of "''disco''" "Workshop_init 0 True (1 / 4) True" id 21] by auto
  from *(1) have s': "s' = (Workshop_init 0 True (1 / 4) True)\<lparr>task_mode := ''disco''\<rparr>"
    by (simp add: set_task_mode_def)
  have "\<exists>u. temp_ioloop_callback 21 s' = Inr u"
    by (simp add: s' temp_ioloop_callback_def init_simps py_setitem_def py_index_def
        py_truediv_def Let_def)
  then obtain u where u: "temp_ioloop_callback 21 s' = Inr u" by blast
  with *(4) have "mcp_calls u = mcp_calls s'" by blast
  then have "map_sum id mcp_calls (temp_ioloop_callback 21 s') = Inr [(0, 0), (1, 0), (2, 0)]"
    using u by (simp add: s' init_simps)
  with * show ?thesis by auto
qed

subsection \<open>Thermometer mode\<close>

lemma length3E:
  assumes "length xs = 3"
  obtains a b c where "xs = [a, b, c]"
  using assms by (auto simp: numeral_3_eq_3 length_Suc_conv)

lemma sampler_step:
  assumes "0 \<le> avg_count s" and "avg_count s < int (length (avg_temp_calc s))"
  shows "\<exists>u. temp_ioloop_callback t (s\<lparr>task_mode := ''command''\<rparr>) = Inr u \<and>
           led_states u = led_states s \<and> mcp_calls u = mcp_calls s \<and>
           temp_bounds u = temp_bounds s"
  using assms
  by (simp add: temp_ioloop_callback_def Let_def py_setitem_def py_index_nat py_truediv_def)

lemma thermometer_tick:
  assumes "task_mode s = ''thermometer''" and "led_states s = [a, b, c]"
    and "temp_bounds s = [lower, upper]"
    and "0 \<le> avg_count s" and "avg_count s < int (length (avg_temp_calc s))"
  shows "\<exists>s'. temp_ioloop_callback t s = Inr s' \<and>
           mcp_calls s' = mcp_calls s @ [(RED, 0), (YELLOW, 0), (GREEN, 0)] @
             (if t < lower then [(YELLOW, 1)]
              else if t < upper \<and> t > lower then [(GREEN, 1)]
              else if t > upper then [(RED, 1)] else []) \<and>
           led_states s' =
             (if t < lower then [0, 1, 0]
              else if t < upper \<and> t > lower then [1, 0, 0]
              else if t > upper then [0, 0, 1] else [0, 0, 0])"
  using assms
  by (simp add: temp_ioloop_callback_def Let_def py_setitem_def py_getitem_def py_index_nat
      py_truediv_def update_led_ok RED_def YELLOW_def GREEN_def)

text \<open>
  Claim C3 as stated fails. The bounds are not ordered by the setters: with the lower bound
  set to 30 and the upper bound to 20, a temperature of 25 is strictly above the upper
  bound, yet the first test of the chain (below the lower bound) wins and YELLOW is lit,
  not RED.
\<close>

theorem thermometer_above_upper_counterexample:
  "(20::real) < 25 \<and> YELLOW = 1 \<and> RED = 2 \<and>
   map_sum id temp_bounds
     (run [Set_lower 30, Set_upper 20, Set_task_mode ''thermometer'']
        (Workshop_init 0 True (1 / 4) True)) = Inr [30, 20] \<and>
   map_sum id led_states
     (run [Set_lower 30, Set_upper 20, Set_task_mode ''thermometer'', Slow_tick 25]
        (Workshop_init 0 True (1 / 4) True)) = Inr [0, 1, 0]"
  by (simp add: init_simps set_temp_bounds_def set_task_mode_def py_setitem_def py_index_def
      py_getitem_def temp_ioloop_callback_def Let_def py_truediv_def update_led_ok
      RED_def YELLOW_def GREEN_def)

text \<open>
  Claim C3, amended. In thermometer mode each slow tick first commands RED, YELLOW and
  GREEN to 0 and then lights at most one indicator from the raw temperature, the tests
  taken in the order of the code: strictly below the lower bound lights only YELLOW;
  strictly between the bounds lights only GREEN; strictly above the upper bound and not
  below the lower bound lights only RED; equal to a bound and within the closed interval
  of the bounds lights none. When the lower bound does not exceed the upper one this is
  the claim as written.
\<close>

theorem thermometer_indicator:
  assumes "task_mode s = ''thermometer''" and "length (led_states s) = 3"
    and "temp_bounds s = [lower, upper]"
    and "0 \<le> avg_count s" and "avg_count s < int (length (avg_temp_calc s))"
  shows "\<exists>s' lit. temp_ioloop_callback t s = Inr s' \<and>
           mcp_calls s' = mcp_calls s @ [(RED, 0), (YELLOW, 0), (GREEN, 0)] @ lit \<and>
           (t < lower \<longrightarrow> lit = [(YELLOW, 1)] \<and> led_states s' = [0, 1, 0]) \<and>
           (lower < t \<and> t < upper \<longrightarrow> lit = [(GREEN, 1)] \<and> led_states s' = [1, 0, 0]) \<and>
           (upper < t \<and> lower \<le> t \<longrightarrow> lit = [(RED, 1)] \<and> led_states s' = [0, 0, 1]) \<and>
           ((t = lower \<or> t = upper) \<and> lower \<le> t \<and> t \<le> upper \<longrightarrow>
              lit = [] \<and> led_states s' = [0, 0, 0])"
proof -
  from assms(2) obtain a b c where abc: "led_states s = [a, b, c]"
    by (rule length3E)
  from thermometer_tick [OF assms(1) abc assms(3,4,5), of t] obtain s' where
    s': "temp_ioloop_callback t s = Inr s'"
      "mcp_calls s' = mcp_calls s @ [(RED, 0), (YELLOW, 0), (GREEN, 0)] @
             (if t < lower then [(YELLOW, 1)]
              else if t < upper \<and> t > lower then [(GREEN, 1)]
              else if t > upper then [(RED, 1)] else [])"
      "led_states s' =
             (if t < lower then [0, 1, 0]
              else if t < upper \<and> t > lower then [1, 0, 0]
              else if t > upper then [0, 0, 1] else [0, 0, 0])"
    by blast
  show ?thesis
    apply (rule exI [of _ s'])
    apply (rule exI [of _ "if t < lower then [(YELLOW, 1)]
              else if t < upper \<and> t > lower then [(GREEN, 1)]
              else if t > upper then [(RED, 1)] else []"])
    using s' by auto
qed

theorem thermometer_indicator_witness:
  "(\<exists>s' lit. temp_ioloop_callback 21
       ((Workshop_init 0 True (1 / 4) True)\<lparr>task_mode := ''thermometer''\<rparr>) = Inr s' \<and>
     mcp_calls s' = [(0, 0), (1, 0), (2, 0)] @ [(RED, 0), (YELLOW, 0), (GREEN, 0)] @ lit \<and>
     lit = [(YELLOW, 1)] \<and> led_states s' = [0, 1, 0]) \<and>
   (\<exists>s' lit. temp_ioloop_callback (87 / 4)
       ((Workshop_init 0 True (1 / 4) True)\<lparr>task_mode := ''thermometer''\<rparr>) = Inr s' \<and>
     mcp_calls s' = [(0, 0), (1, 0), (2, 0)] @ [(RED, 0), (YELLOW, 0), (GREEN, 0)] @ lit \<and>
     lit = [(GREEN, 1)] \<and> led_states s' = [1, 0, 0]) \<and>
   (\<exists>s' lit. temp_ioloop_callback (45 / 2)
       ((Workshop_init 0 True (1 / 4) True)\<lparr>task_mode := ''thermometer''\<rparr>) = Inr s' \<and>
     mcp_calls s' = [(0, 0), (1, 0), (2, 0)] @ [(RED, 0), (YELLOW, 0), (GREEN, 0)] @ lit \<and>
     lit = [(RED, 1)] \<and> led_states s' = [0, 0, 1]) \<and>
   (\<exists>s' lit. temp_ioloop_callback 22
       ((Workshop_init 0 True (1 / 4) True)\<lparr>task_mode := ''thermometer''\<rparr>) = Inr s' \<and>
     mcp_calls s' = [(0, 0), (1, 0), (2, 0)] @ [(RED, 0), (YELLOW, 0), (GREEN, 0)] @ lit \<and>
     lit = [] \<and> led_states s' = [0, 0, 0])"
proof -
  let ?s = "(Workshop_init 0 True (1 / 4) True)\<lparr>task_mode := ''thermometer''\<rparr>"
  have a: "task_mode ?s = ''thermometer''" "length (led_states ?s) = 3"
    "temp_bounds ?s = [43 / 2, 22]" "0 \<le> avg_count ?s"
    "avg_count ?s < int (length (avg_temp_calc ?s))"
    by (simp_all add: init_simps)
  show ?thesis
    using thermometer_indicator [OF a, of 21] thermometer_indicator [OF a, of "87 / 4"]
      thermometer_indicator [OF a, of "45 / 2"] thermometer_indicator [OF a, of 22]
    by (simp add: init_simps)
qed

end
